theory Spec2Isabelle
  imports
    Complex_Main
    "HOL-Library.Log_Nat"
    "HOL-Library.Signed_Division"
    "HOL-Library.AList"
    "HOL-Library.Word"
begin

section \<open>Python values and the builtins the script calls\<close>

text \<open>
  The script \<^verbatim>\<open>ubxlocationdate.py\<close> reads the attributes of the messages that
  \<^verbatim>\<open>pyubx2.UBXReader\<close> yields, converts them with \<^verbatim>\<open>float()\<close>, \<^verbatim>\<open>int()\<close> and
  \<^verbatim>\<open>datetime()\<close>, and catches every exception of the conversions. The exceptions are
  values here; a \<^verbatim>\<open>try\<close> is a case distinction on the result.
\<close>

datatype exn = TypeError | ValueError | OverflowError | IndexError
  | FileNotFoundError | BadGzipFile | EOFError

text \<open>
  A Python float is a finite double, an infinity or a NaN. A finite double is modelled
  by the real number it denotes, so that comparisons are exact, as they are in Python.
\<close>

datatype pyfloat = Finite real | PosInf | NegInf | NaN

text \<open>
  The value of an attribute: \<^verbatim>\<open>None\<close> (also what \<^verbatim>\<open>getattr(parsed, name, None)\<close>
  gives for an attribute that is absent), an \<^verbatim>\<open>int\<close> (unbounded), a \<^verbatim>\<open>float\<close>, and two
  kinds of other objects. \<open>PyIntLike i\<close> is an object that \<^verbatim>\<open>int()\<close> converts to \<open>i\<close> and
  \<^verbatim>\<open>float()\<close> refuses (its class defines \<^verbatim>\<open>__int__\<close> and neither \<^verbatim>\<open>__float__\<close> nor
  \<^verbatim>\<open>__index__\<close>). \<open>PyOther\<close> is an object with no numeric conversion, on which both
  \<^verbatim>\<open>float()\<close> and \<^verbatim>\<open>int()\<close> raise \<^verbatim>\<open>TypeError\<close> (a list, say). Strings and bytes,
  which the two builtins parse, are not modelled.
\<close>

datatype pyval = PyNone | PyInt int | PyFloat pyfloat | PyIntLike int | PyOther

text \<open>
  \<^verbatim>\<open>float(i)\<close> for an int: the nearest double, ties to the even significand of 53 bits,
  and \<^verbatim>\<open>OverflowError\<close> when that is \<open>2 ^ 1024\<close> or more. \<open>int_to_double\<close> gives the
  integer value of the double.
\<close>

definition round_half_even :: "int \<Rightarrow> int \<Rightarrow> int" where
  "round_half_even a d =
     (let q = a div d; r = a mod d
      in if 2 * r < d then q else if d < 2 * r then q + 1
         else if even q then q else q + 1)"

definition int_to_double :: "int \<Rightarrow> exn + int" where
  "int_to_double i =
     (let a = \<bar>i\<bar>; e = bitlen a - 53;
          m = (if e \<le> 0 then a else round_half_even a (2 ^ nat e) * 2 ^ nat e)
      in if 2 ^ 1024 \<le> m then Inl OverflowError else Inr (sgn i * m))"

definition float_of_int :: "int \<Rightarrow> exn + pyfloat" where
  "float_of_int i =
     (case int_to_double i of Inl e \<Rightarrow> Inl e | Inr m \<Rightarrow> Inr (Finite (of_int m)))"

fun py_float :: "pyval \<Rightarrow> exn + pyfloat" where
  "py_float PyNone = Inl TypeError"
| "py_float (PyInt i) = float_of_int i"
| "py_float (PyFloat f) = Inr f"
| "py_float (PyIntLike i) = Inl TypeError"
| "py_float PyOther = Inl TypeError"

text \<open>\<^verbatim>\<open>int(x)\<close>: a float is truncated towards zero; a NaN or an infinity raises.\<close>

definition trunc :: "real \<Rightarrow> int" where
  "trunc r = (if 0 \<le> r then \<lfloor>r\<rfloor> else \<lceil>r\<rceil>)"

fun py_int :: "pyval \<Rightarrow> exn + int" where
  "py_int PyNone = Inl TypeError"
| "py_int (PyInt i) = Inr i"
| "py_int (PyFloat (Finite r)) = Inr (trunc r)"
| "py_int (PyFloat NaN) = Inl ValueError"
| "py_int (PyFloat PosInf) = Inl OverflowError"
| "py_int (PyFloat NegInf) = Inl OverflowError"
| "py_int (PyIntLike i) = Inr i"
| "py_int PyOther = Inl TypeError"

text \<open>
  \<^verbatim>\<open>i / 1e7\<close> for an int \<open>i\<close>: the int is converted to a double first (and may
  overflow), then the doubles are divided, the quotient rounded to the nearest double.
  \<open>double_div p q\<close> is that quotient for the integer-valued doubles \<open>p\<close> and \<open>q > 0\<close>:
  \<open>l\<close> is the binary exponent of \<open>p / q\<close>, so the significand \<open>s\<close> has 53 bits.
\<close>

definition double_div :: "int \<Rightarrow> int \<Rightarrow> real" where
  "double_div p q =
     (if p = 0 then 0
      else
        let a = \<bar>p\<bar>; b = bitlen a - bitlen q;
            l = (if (if 0 \<le> b then q * 2 ^ nat b \<le> a else q \<le> a * 2 ^ nat (- b))
                 then b else b - 1);
            e = l - 52;
            s = (if 0 \<le> e then round_half_even a (q * 2 ^ nat e)
                 else round_half_even (a * 2 ^ nat (- e)) q)
        in of_int (sgn p * s) * 2 powi e)"

definition truediv_1e7 :: "int \<Rightarrow> exn + pyfloat" where
  "truediv_1e7 i =
     (case int_to_double i of
        Inl e \<Rightarrow> Inl e
      | Inr m \<Rightarrow> Inr (Finite (double_div m 10000000)))"

subsection \<open>datetime\<close>

text \<open>
  The constructor \<^verbatim>\<open>datetime(year, month, day, hour, minute, second, microsecond)\<close>
  of the standard library: it checks the year against \<^verbatim>\<open>MINYEAR\<close> and \<^verbatim>\<open>MAXYEAR\<close>,
  the month, the day against the length of the month, and the time fields, and raises
  \<^verbatim>\<open>ValueError\<close> for a field out of range.
\<close>

record datetime =
  dt_year :: int
  dt_month :: int
  dt_day :: int
  dt_hour :: int
  dt_minute :: int
  dt_second :: int
  dt_microsecond :: int

definition is_leap :: "int \<Rightarrow> bool" where
  "is_leap y \<longleftrightarrow> y mod 4 = 0 \<and> (y mod 100 \<noteq> 0 \<or> y mod 400 = 0)"

definition DAYS_IN_MONTH :: "int list" where
  "DAYS_IN_MONTH = [-1, 31, 28, 31, 30, 31, 30, 31, 31, 30, 31, 30, 31]"

definition days_in_month :: "int \<Rightarrow> int \<Rightarrow> int" where
  "days_in_month y m = (if m = 2 \<and> is_leap y then 29 else DAYS_IN_MONTH ! nat m)"

text \<open>
  Every refusal is \<^verbatim>\<open>ValueError\<close> here (the C implementation raises
  \<^verbatim>\<open>OverflowError\<close> for an argument beyond a C int): the script catches both alike.
\<close>

definition datetime_new ::
  "int \<Rightarrow> int \<Rightarrow> int \<Rightarrow> int \<Rightarrow> int \<Rightarrow> int \<Rightarrow> int \<Rightarrow> exn + datetime" where
  "datetime_new y mo d h mi s us =
     (if \<not> (1 \<le> y \<and> y \<le> 9999) then Inl ValueError
      else if \<not> (1 \<le> mo \<and> mo \<le> 12) then Inl ValueError
      else if \<not> (1 \<le> d \<and> d \<le> days_in_month y mo) then Inl ValueError
      else if \<not> (0 \<le> h \<and> h \<le> 23) then Inl ValueError
      else if \<not> (0 \<le> mi \<and> mi \<le> 59) then Inl ValueError
      else if \<not> (0 \<le> s \<and> s \<le> 59) then Inl ValueError
      else if \<not> (0 \<le> us \<and> us \<le> 999999) then Inl ValueError
      else Inr \<lparr>dt_year = y, dt_month = mo, dt_day = d, dt_hour = h,
                 dt_minute = mi, dt_second = s, dt_microsecond = us\<rparr>)"

section \<open>collect_info_from_file\<close>

text \<open>
  A parsed message, as the script sees it: its \<^verbatim>\<open>identity\<close> (\<open>None\<close> when the object
  has none) and its other attributes by name. The reader hands the integer fields of a
  message over as ints and the coordinates \<^verbatim>\<open>lat\<close> and \<^verbatim>\<open>lon\<close> as floats, already
  scaled to degrees.
\<close>

record ubxmsg =
  identity :: "string option"
  attrs :: "string \<rightharpoonup> pyval"

definition getattr :: "ubxmsg \<Rightarrow> string \<Rightarrow> pyval" where
  "getattr parsed name = (case attrs parsed name of None \<Rightarrow> PyNone | Some v \<Rightarrow> v)"

text \<open>Lines 23 to 31: the nine attributes read from a NAV-PVT message.\<close>

record fixrec =
  lat :: pyval
  lon :: pyval
  year :: pyval
  month :: pyval
  day :: pyval
  hour :: pyval
  minute :: pyval
  second :: pyval
  nano :: pyval

definition read_fix :: "ubxmsg \<Rightarrow> fixrec" where
  "read_fix parsed =
     \<lparr>lat = getattr parsed ''lat'', lon = getattr parsed ''lon'',
      year = getattr parsed ''year'', month = getattr parsed ''month'',
      day = getattr parsed ''day'', hour = getattr parsed ''hour'',
      minute = getattr parsed ''min'', second = getattr parsed ''second'',
      nano = getattr parsed ''nano''\<rparr>"

definition decode_fix :: "ubxmsg \<Rightarrow> fixrec option" where
  "decode_fix parsed =
     (if identity parsed = Some ''NAV-PVT'' then Some (read_fix parsed) else None)"

text \<open>
  Lines 36 to 50, for one coordinate: \<^verbatim>\<open>float(v)\<close>, and when that raises,
  \<^verbatim>\<open>int(v) / 1e7\<close>; \<open>None\<close> is the \<^verbatim>\<open>continue\<close> of the inner handler.
\<close>

definition coord :: "pyval \<Rightarrow> pyfloat option" where
  "coord v =
     (case py_float v of
        Inr deg \<Rightarrow> Some deg
      | Inl _ \<Rightarrow>
          (case py_int v of
             Inl _ \<Rightarrow> None
           | Inr i \<Rightarrow> (case truediv_1e7 i of Inl _ \<Rightarrow> None | Inr deg \<Rightarrow> Some deg)))"

text \<open>Lines 60 to 66: the microseconds from the attribute \<^verbatim>\<open>nano\<close>.\<close>

definition usec_of :: "pyval \<Rightarrow> int" where
  "usec_of n =
     (if n \<noteq> PyNone then (case py_int n of Inr k \<Rightarrow> k div 1000 | Inl _ \<Rightarrow> 0) else 0)"

text \<open>Lines 53 to 70: the body of the outer \<^verbatim>\<open>try\<close>.\<close>

definition build_datetime :: "fixrec \<Rightarrow> exn + datetime" where
  "build_datetime r =
     (case py_int (year r) of Inl e \<Rightarrow> Inl e | Inr year_i \<Rightarrow>
      case py_int (month r) of Inl e \<Rightarrow> Inl e | Inr month_i \<Rightarrow>
      case py_int (day r) of Inl e \<Rightarrow> Inl e | Inr day_i \<Rightarrow>
      case py_int (hour r) of Inl e \<Rightarrow> Inl e | Inr hour_i \<Rightarrow>
      case py_int (minute r) of Inl e \<Rightarrow> Inl e | Inr min_i \<Rightarrow>
      case py_int (second r) of Inl e \<Rightarrow> Inl e | Inr sec_i \<Rightarrow>
        datetime_new year_i month_i day_i hour_i min_i sec_i (usec_of (nano r)))"

type_synonym sample = "datetime \<times> pyfloat \<times> pyfloat"

text \<open>
  Lines 33 to 72: the tuple appended for a fix, or \<open>None\<close> when one of the three
  \<^verbatim>\<open>continue\<close> statements is reached.
\<close>

definition sample_of :: "fixrec \<Rightarrow> sample option" where
  "sample_of r =
     (if PyNone \<in> set [lat r, lon r, year r, month r, day r, hour r, minute r, second r]
      then None
      else
        case coord (lat r) of None \<Rightarrow> None | Some lat_deg \<Rightarrow>
        case coord (lon r) of None \<Rightarrow> None | Some lon_deg \<Rightarrow>
        case build_datetime r of Inl _ \<Rightarrow> None | Inr dt \<Rightarrow> Some (dt, lat_deg, lon_deg))"

definition frame_sample :: "ubxmsg \<Rightarrow> sample option" where
  "frame_sample parsed =
     (case decode_fix parsed of None \<Rightarrow> None | Some r \<Rightarrow> sample_of r)"

text \<open>The raw bytes of a frame, the first component of what the reader yields.\<close>

type_synonym byte = "8 word"

text \<open>
  The loop \<^verbatim>\<open>for raw, parsed in ubr\<close>, with the list \<^verbatim>\<open>records\<close> as its state: one
  step appends the sample of the frame, or leaves the list as it is.
\<close>

definition frame_step :: "sample list \<Rightarrow> byte list \<times> ubxmsg \<Rightarrow> sample list" where
  "frame_step records item =
     (case frame_sample (snd item) of None \<Rightarrow> records | Some s \<Rightarrow> records @ [s])"

fun loop :: "sample list \<Rightarrow> (byte list \<times> ubxmsg) list \<Rightarrow> sample list" where
  "loop records [] = records"
| "loop records (item # rest) = loop (frame_step records item) rest"

text \<open>
  What the loop sees of \<^verbatim>\<open>UBXReader(gzip.open(path, "rb"), validate=False)\<close>: the
  items the iterator yields, and how the iteration ends, by exhaustion (\<open>None\<close>) or with
  an exception (\<open>Some e\<close>) that the reader lets through. The function has no handler
  around the loop: the exception leaves it and the records read so far are lost.
\<close>

type_synonym ubx_stream = "(byte list \<times> ubxmsg) list \<times> exn option"

text \<open>
  How the iteration ends, from how the reads of the decompressed stream end. At the end
  of the data the iteration is exhausted. A read of gzip raises \<^verbatim>\<open>BadGzipFile\<close> on a
  file that is not gzip or whose check value is wrong, and \<^verbatim>\<open>EOFError\<close> in an archive
  that ends before its end-of-stream marker. The reader takes an \<^verbatim>\<open>EOFError\<close> for the
  end of the data, so the loop never sees it; every other exception passes through the
  reader.
\<close>

fun reader_end :: "exn option \<Rightarrow> exn option" where
  "reader_end None = None"
| "reader_end (Some e) = (if e = EOFError then None else Some e)"

text \<open>
  The stream of an archive: the items the reader yields before the reads end, and the
  end of the iteration.
\<close>

definition ubx_reader :: "(byte list \<times> ubxmsg) list \<times> exn option \<Rightarrow> ubx_stream" where
  "ubx_reader archive = (fst archive, reader_end (snd archive))"

definition collect_info_from_file :: "ubx_stream \<Rightarrow> exn + sample list" where
  "collect_info_from_file stream =
     (case snd stream of
        Some e \<Rightarrow> Inl e
      | None \<Rightarrow> Inr (loop [] (fst stream)))"

section \<open>collect_info_from_dir\<close>

text \<open>
  The dictionary \<^verbatim>\<open>results\<close> keeps the order of insertion: an association list,
  where \<open>AList.update\<close> replaces the value of a key that is present and appends a new
  key at the end, as the assignment \<^verbatim>\<open>results[name] = records\<close> does. The lines
  printed are the warnings: the file and the exception.
\<close>

type_synonym results = "(string \<times> sample list) list"

type_synonym warning = "string \<times> exn"

text \<open>
  Lines 85 to 91, over \<^verbatim>\<open>sorted(src_dir.glob("*.ubz"))\<close>: each file is given by its
  name and by the stream that reading it gives.
\<close>

fun dir_loop ::
  "results \<times> warning list \<Rightarrow> (string \<times> ubx_stream) list \<Rightarrow> results \<times> warning list" where
  "dir_loop st [] = st"
| "dir_loop (results, out) ((name, stream) # rest) =
     dir_loop
       (case collect_info_from_file stream of
          Inr records \<Rightarrow> (AList.update name records results, out)
        | Inl e \<Rightarrow> (AList.update name [] results, out @ [(name, e)]))
       rest"

text \<open>The directory is \<open>None\<close> when it does not exist or is not a directory.\<close>

definition collect_info_from_dir ::
  "(string \<times> ubx_stream) list option \<Rightarrow> exn + results \<times> warning list" where
  "collect_info_from_dir src_dir =
     (case src_dir of
        None \<Rightarrow> Inl FileNotFoundError
      | Some files \<Rightarrow> Inr (dir_loop ([], []) files))"

section \<open>main: the region of a file's first record\<close>

text \<open>
  A decimal literal of the source denotes the double nearest to the decimal:
  \<open>literal m k\<close> is that double for the digits \<open>m\<close> with \<open>k\<close> of them after the point
  (\<^verbatim>\<open>59.83333\<close> is \<open>literal 5983333 5\<close>), the correctly rounded quotient of \<open>m\<close> and
  \<open>10 ^ k\<close>.
\<close>

definition literal :: "int \<Rightarrow> nat \<Rightarrow> real" where
  "literal m k = double_div m (10 ^ k)"

text \<open>
  The comparisons of lines 123 to 133 between a float and the double of a literal:
  false on a NaN.
\<close>

fun fgt :: "pyfloat \<Rightarrow> real \<Rightarrow> bool" where
  "fgt (Finite x) c = (c < x)"
| "fgt PosInf c = True"
| "fgt NegInf c = False"
| "fgt NaN c = False"

fun flt :: "pyfloat \<Rightarrow> real \<Rightarrow> bool" where
  "flt (Finite x) c = (x < c)"
| "flt PosInf c = False"
| "flt NegInf c = True"
| "flt NaN c = False"

text \<open>
  Lines 119 to 134: the value of the variable \<^verbatim>\<open>location\<close> after the chain, which the
  summary line of line 141 prints, and the lines that the chain itself prints. The bounds
  are the literals of the source: \<^verbatim>\<open>59.83333\<close>, \<^verbatim>\<open>68.90596\<close>, \<^verbatim>\<open>21.37596\<close>,
  \<^verbatim>\<open>30.93276\<close> for Finland, and so on down to \<^verbatim>\<open>-161.75583\<close> and \<^verbatim>\<open>-68.01197\<close>, the
  negated literals, for the United States.
\<close>

definition geofence :: "pyfloat \<Rightarrow> pyfloat \<Rightarrow> string \<times> string list" where
  "geofence la lo =
     (let location = ''unknown''
      in if fgt la (literal 5983333 5) \<and> flt la (literal 6890596 5) \<and>
            fgt lo (literal 2137596 5) \<and> flt lo (literal 3093276 5)
           then (location, [''Finland''])
         else if fgt la (literal 4583203 5) \<and> flt la (literal 4769732 5) \<and>
            fgt lo (literal 607544 5) \<and> flt lo (literal 983723 5)
           then (location, [''Switzerland''])
         else if fgt la (literal 1824306 5) \<and> flt la (literal 5233333 5) \<and>
            fgt lo (literal 7598951 5) \<and> flt lo (literal 13428917 5)
           then (location, [''China''])
         else if fgt la (literal 2434478 5) \<and> flt la (literal 4540944 5) \<and>
            fgt lo (literal 12415717 5) \<and> flt lo (literal 145575 3)
           then (location, [''Japan''])
         else if fgt la (literal 128967 5) \<and> flt la (literal 132808 5) \<and>
            fgt lo (literal 103804641 6) \<and> flt lo (literal 10384 2)
           then (location, [''Singapore''])
         else if fgt la (literal 1950139 5) \<and> flt la (literal 6485694 5) \<and>
            fgt lo (- literal 16175583 5) \<and> flt lo (- literal 6801197 5)
           then (location, [''United States''])
         else (location, []))"

text \<open>
  The body of the loop of \<^verbatim>\<open>main\<close> for one file, as far as the region goes:
  \<^verbatim>\<open>records[0]\<close> raises \<^verbatim>\<open>IndexError\<close> on a file with no record, and nothing
  catches it.
\<close>

definition main_file :: "sample list \<Rightarrow> exn + string \<times> string list" where
  "main_file records =
     (case records of
        [] \<Rightarrow> Inl IndexError
      | (dt, la, lo) # _ \<Rightarrow> Inr (geofence la lo))"

section \<open>The words of the specification\<close>

subsection \<open>The classifier\<close>

text \<open>
  An ordered table of named boxes (name, minimal and maximal latitude, minimal and
  maximal longitude), and the name of the first box that strictly contains the point, or
  \<open>''unknown''\<close>. The numbers of the table are read as floats, like the literals of the
  source.
\<close>

type_synonym rule = "string \<times> real \<times> real \<times> real \<times> real"

definition rules :: "rule list" where
  "rules =
     [(''Finland'', literal 5983333 5, literal 6890596 5, literal 2137596 5, literal 3093276 5),
      (''Switzerland'', literal 4583203 5, literal 4769732 5, literal 607544 5, literal 983723 5),
      (''China'', literal 1824306 5, literal 5233333 5, literal 7598951 5, literal 13428917 5),
      (''Japan'', literal 2434478 5, literal 4540944 5, literal 12415717 5, literal 145575 3),
      (''Singapore'', literal 128967 5, literal 132808 5, literal 103804641 6, literal 10384 2),
      (''United States'', literal 1950139 5, literal 6485694 5, - literal 16175583 5,
        - literal 6801197 5)]"

fun contains :: "pyfloat \<Rightarrow> pyfloat \<Rightarrow> rule \<Rightarrow> bool" where
  "contains la lo (name, min_lat, max_lat, min_lon, max_lon) \<longleftrightarrow>
     fgt la min_lat \<and> flt la max_lat \<and> fgt lo min_lon \<and> flt lo max_lon"

definition classify_spec :: "pyfloat \<Rightarrow> pyfloat \<Rightarrow> string" where
  "classify_spec la lo =
     (case find (contains la lo) rules of None \<Rightarrow> ''unknown'' | Some r \<Rightarrow> fst r)"

subsection \<open>Calendar validity\<close>

text \<open>
  The fields form a valid date and time of the Gregorian calendar: thirty days in April,
  June, September and November, twenty-eight or twenty-nine in February.
\<close>

definition month_length :: "int \<Rightarrow> int \<Rightarrow> int" where
  "month_length y m =
     (if m = 4 \<or> m = 6 \<or> m = 9 \<or> m = 11 then 30
      else if m = 2 then (if (y mod 4 = 0 \<and> y mod 100 \<noteq> 0) \<or> y mod 400 = 0 then 29 else 28)
      else 31)"

definition valid_calendar :: "int \<Rightarrow> int \<Rightarrow> int \<Rightarrow> int \<Rightarrow> int \<Rightarrow> int \<Rightarrow> bool" where
  "valid_calendar y mo d h mi s \<longleftrightarrow>
     1 \<le> mo \<and> mo \<le> 12 \<and> 1 \<le> d \<and> d \<le> month_length y mo \<and>
     0 \<le> h \<and> h < 24 \<and> 0 \<le> mi \<and> mi < 60 \<and> 0 \<le> s \<and> s < 60"

subsection \<open>Numbers\<close>

text \<open>The values that are numbers: an int or a float.\<close>

definition is_number :: "pyval \<Rightarrow> bool" where
  "is_number v = (case v of PyInt _ \<Rightarrow> True | PyFloat _ \<Rightarrow> True | _ \<Rightarrow> False)"

subsection \<open>Coordinate conversion\<close>


section \<open>The frame decoder\<close>

text \<open>
  Modelled from the spec: the frame decoder. The script leaves framing to
  \<^verbatim>\<open>pyubx2.UBXReader\<close>, whose code is not among the sources; what the script decides is
  the argument \<^verbatim>\<open>validate=False\<close> of line 19. The frame, the checksum and the scan follow
  sections 3, 4.1 and 6 of the specification.

  A frame: class, id, the two bytes of the declared length (little-endian), the payload
  and the two trailing checksum bytes.
\<close>

record frame =
  msg_class :: byte
  msg_id :: byte
  len_lo :: byte
  len_hi :: byte
  payload :: "byte list"
  ck_a :: byte
  ck_b :: byte

text \<open>
  Modelled from the spec: the running dual sum, seeded with 0 and 0; for each byte
  \<open>ckA += byte; ckB += ckA\<close>, both modulo 256 (the arithmetic of \<open>8 word\<close>), over class, id,
  length bytes and payload.
\<close>

fun ck_sum :: "byte \<times> byte \<Rightarrow> byte list \<Rightarrow> byte \<times> byte" where
  "ck_sum (a, b) [] = (a, b)"
| "ck_sum (a, b) (x # xs) = ck_sum (a + x, b + (a + x)) xs"

text \<open>
  Modelled from the spec: the checksum of a frame, computed over class, id, length bytes
  and payload.
\<close>

definition checksum :: "frame \<Rightarrow> byte \<times> byte" where
  "checksum f = ck_sum (0, 0) (msg_class f # msg_id f # len_lo f # len_hi f # payload f)"

text \<open>
  Modelled from the spec: the checksum validates when the two trailing bytes are the
  computed pair.
\<close>

definition checksum_ok :: "frame \<Rightarrow> bool" where
  "checksum_ok f \<longleftrightarrow> checksum f = (ck_a f, ck_b f)"

text \<open>
  Modelled from the spec: the bytes after a sync marker. The next 4 bytes are class, id
  and length; with fewer than \<open>length + 2\<close> bytes after them the frame is truncated
  (\<open>None\<close>); otherwise the frame and the bytes that follow it.
\<close>

definition read_frame :: "byte list \<Rightarrow> (frame \<times> byte list) option" where
  "read_frame bs =
     (case bs of
        cls # mid # l0 # l1 # body \<Rightarrow>
          (let n = unat l0 + 256 * unat l1
           in if length body < n + 2 then None
              else Some (\<lparr>msg_class = cls, msg_id = mid, len_lo = l0, len_hi = l1,
                          payload = take n body, ck_a = body ! n, ck_b = body ! (n + 1)\<rparr>,
                         drop (n + 2) body))
      | _ \<Rightarrow> None)"

text \<open>
  Modelled from the spec: what the decoder produces, a frame or the report of a checksum
  failure (the warning).
\<close>

datatype event = Yield frame | ChecksumFailure frame

text \<open>
  Modelled from the spec: the scan, byte by byte, for the sync marker \<open>sync\<close> (the
  specification fixes a pair and does not give it: a parameter). A truncated frame ends
  the decoding. A frame whose checksum does not match is reported and the search resumes
  one byte past the start of the rejected marker. The flag \<open>validate\<close> is the argument of
  the reader in the script: without it the two checksum bytes are not compared.
\<close>

function scan :: "byte \<times> byte \<Rightarrow> bool \<Rightarrow> byte list \<Rightarrow> event list" where
  "scan sync validate bs =
     (case bs of
        s1 # s2 # rest \<Rightarrow>
          if (s1, s2) = sync then
            (case read_frame rest of
               None \<Rightarrow> []
             | Some (f, remaining) \<Rightarrow>
                 if validate \<and> \<not> checksum_ok f
                 then ChecksumFailure f # scan sync validate (s2 # rest)
                 else Yield f # scan sync validate remaining)
          else scan sync validate (s2 # rest)
      | _ \<Rightarrow> [])"
  by pat_completeness auto
termination
  by (relation "measure (\<lambda>(sync, validate, bs). length bs)")
    (auto simp: read_frame_def Let_def split: list.splits if_splits)

declare scan.simps [simp del]

text \<open>
  The decoder as line 19 constructs it, \<^verbatim>\<open>UBXReader(stream, validate=False)\<close>: the scan
  without validation.
\<close>

definition file_frames :: "byte \<times> byte \<Rightarrow> byte list \<Rightarrow> event list" where
  "file_frames sync stream = scan sync False stream"

section \<open>The fix message decoder\<close>








section \<open>Example inputs\<close>

text \<open>A message with the given identity and attributes.\<close>

definition mk_msg :: "string \<Rightarrow> (string \<times> pyval) list \<Rightarrow> ubxmsg" where
  "mk_msg ident kvs = \<lparr>identity = Some ident, attrs = map_of kvs\<rparr>"

text \<open>A NAV-PVT message with the given coordinates, month and nanoseconds.\<close>

definition pvt :: "pyval \<Rightarrow> pyval \<Rightarrow> int \<Rightarrow> pyval \<Rightarrow> ubxmsg" where
  "pvt la lo mo ns =
     mk_msg ''NAV-PVT''
       [(''lat'', la), (''lon'', lo), (''year'', PyInt 2025), (''month'', PyInt mo),
        (''day'', PyInt 12), (''hour'', PyInt 0), (''min'', PyInt 53),
        (''second'', PyInt 40), (''nano'', ns)]"

text \<open>The timestamp of these messages, with the given month and microsecond.\<close>

definition stamp :: "int \<Rightarrow> int \<Rightarrow> datetime" where
  "stamp mo us =
     \<lparr>dt_year = 2025, dt_month = mo, dt_day = 12, dt_hour = 0, dt_minute = 53,
      dt_second = 40, dt_microsecond = us\<rparr>"

text \<open>A fix in Singapore and a fix in Finland.\<close>

definition sg_msg :: ubxmsg where
  "sg_msg = pvt (PyFloat (Finite 1.30)) (PyFloat (Finite 103.82)) 9 (PyInt 299000)"

definition fi_msg :: ubxmsg where
  "fi_msg = pvt (PyFloat (Finite 61.0)) (PyFloat (Finite 25.0)) 9 PyNone"


text \<open>
  Two frames of class 1, id 7 and payload 1, 2 after the marker B5 62: the checksum of the
  first is wrong in its second byte.
\<close>

definition good_frame :: frame where
  "good_frame = \<lparr>msg_class = 1, msg_id = 7, len_lo = 2, len_hi = 0, payload = [1, 2],
                  ck_a = 13, ck_b = 53\<rparr>"

definition bad_frame :: frame where
  "bad_frame = good_frame\<lparr>ck_b := 54\<rparr>"

definition frame_bytes :: "byte \<Rightarrow> byte list" where
  "frame_bytes ckb = [0xB5, 0x62, 1, 7, 2, 0, 1, 2, 13, ckb]"

definition two_frames :: "byte list" where
  "two_frames = frame_bytes 54 @ frame_bytes 53"

section \<open>Properties of the builtins\<close>

subsection \<open>The calendar check of datetime\<close>

lemma is_leap_iff: "is_leap y \<longleftrightarrow> (y mod 4 = 0 \<and> y mod 100 \<noteq> 0) \<or> y mod 400 = 0"
  unfolding is_leap_def by presburger

lemma days_in_month_length:
  assumes "1 \<le> m" "m \<le> 12"
  shows "days_in_month y m = month_length y m"
proof -
  from assms have "m = 1 \<or> m = 2 \<or> m = 3 \<or> m = 4 \<or> m = 5 \<or> m = 6 \<or> m = 7 \<or> m = 8 \<or> m = 9
      \<or> m = 10 \<or> m = 11 \<or> m = 12"
    by presburger
  then show ?thesis
    by (elim disjE)
      (simp_all add: days_in_month_def month_length_def is_leap_iff DAYS_IN_MONTH_def)
qed

lemma datetime_new_valid:
  assumes "datetime_new y mo d h mi s us = Inr dt"
  shows "valid_calendar y mo d h mi s \<and> 0 \<le> us \<and> us \<le> 999999 \<and> dt_microsecond dt = us"
proof -
  from assms have r: "1 \<le> mo" "mo \<le> 12" "1 \<le> d" "d \<le> days_in_month y mo"
      "0 \<le> h" "h \<le> 23" "0 \<le> mi" "mi \<le> 59" "0 \<le> s" "s \<le> 59" "0 \<le> us" "us \<le> 999999"
      and dt: "dt_microsecond dt = us"
    by (auto simp: datetime_new_def split: if_splits)
  from r(1,2) have "days_in_month y mo = month_length y mo"
    by (rule days_in_month_length)
  with r dt show ?thesis
    by (simp add: valid_calendar_def)
qed

subsection \<open>float() on an int\<close>

lemma int_to_double_small:
  assumes "\<bar>i\<bar> < 2 ^ 53"
  shows "int_to_double i = Inr i"
proof -
  have "bitlen \<bar>i\<bar> \<le> 53"
    using assms by (simp add: bitlen_le_iff_power)
  moreover have "\<not> (2::int) ^ 1024 \<le> \<bar>i\<bar>"
    using assms by simp
  moreover have "sgn i * \<bar>i\<bar> = i"
    by (simp add: sgn_if)
  ultimately show ?thesis
    by (simp add: int_to_double_def Let_def)
qed

subsection \<open>The division of doubles\<close>





section \<open>Properties of the loops\<close>

subsection \<open>The loop over the frames\<close>

lemma loop_append: "loop records (xs @ ys) = loop (loop records xs) ys"
  by (induction xs arbitrary: records) simp_all

lemma loop_acc: "loop records xs = records @ loop [] xs"
proof (induction xs arbitrary: records)
  case Nil
  show ?case by simp
next
  case (Cons item rest)
  have "loop records (item # rest) = frame_step records item @ loop [] rest"
    using Cons.IH [of "frame_step records item"] by simp
  also have "\<dots> = records @ frame_step [] item @ loop [] rest"
    by (simp add: frame_step_def split: option.split)
  also have "frame_step [] item @ loop [] rest = loop [] (item # rest)"
    using Cons.IH [of "frame_step [] item"] by simp
  finally show ?case .
qed

text \<open>The records of a file are the samples of its frames, in the order of the frames.\<close>

lemma loop_map_filter: "loop [] xs = List.map_filter (frame_sample \<circ> snd) xs"
proof (induction xs)
  case Nil
  show ?case by (simp add: List.map_filter_simps)
next
  case (Cons item rest)
  have "loop [] (item # rest) = frame_step [] item @ loop [] rest"
    using loop_acc [of "frame_step [] item" rest] by simp
  then show ?case
    using Cons.IH by (simp add: frame_step_def List.map_filter_simps split: option.split)
qed


lemma loop_skip:
  assumes "frame_sample parsed = None"
  shows "loop records (xs @ (raw, parsed) # ys) = loop records (xs @ ys)"
  using assms by (simp add: loop_append frame_step_def)

lemma collect_skip:
  assumes "frame_sample parsed = None"
  shows "collect_info_from_file (xs @ (raw, parsed) # ys, t) =
    collect_info_from_file (xs @ ys, t)"
  using assms by (simp add: collect_info_from_file_def loop_skip split: option.split)

lemma read_fix_simps:
  "year (read_fix p) = getattr p ''year''" "month (read_fix p) = getattr p ''month''"
  "day (read_fix p) = getattr p ''day''" "hour (read_fix p) = getattr p ''hour''"
  "minute (read_fix p) = getattr p ''min''" "second (read_fix p) = getattr p ''second''"
  "nano (read_fix p) = getattr p ''nano''" "lat (read_fix p) = getattr p ''lat''"
  "lon (read_fix p) = getattr p ''lon''"
  by (simp_all add: read_fix_def)

lemma build_datetime_Inr:
  assumes "build_datetime r = Inr dt"
  obtains y mo d h mi s where
    "py_int (year r) = Inr y" "py_int (month r) = Inr mo" "py_int (day r) = Inr d"
    "py_int (hour r) = Inr h" "py_int (minute r) = Inr mi" "py_int (second r) = Inr s"
    "datetime_new y mo d h mi s (usec_of (nano r)) = Inr dt"
  using assms by (auto simp: build_datetime_def split: sum.splits)

lemma frame_sample_Some:
  assumes "frame_sample parsed = Some (dt, la, lo)"
  shows "identity parsed = Some ''NAV-PVT''"
    and "coord (getattr parsed ''lat'') = Some la"
    and "coord (getattr parsed ''lon'') = Some lo"
    and "build_datetime (read_fix parsed) = Inr dt"
  using assms
  by (auto simp: frame_sample_def decode_fix_def sample_of_def read_fix_def
      split: if_splits option.splits sum.splits)

lemma frame_sample_usec:
  assumes "frame_sample parsed = Some (dt, la, lo)"
  shows "dt_microsecond dt = usec_of (getattr parsed ''nano'')"
    and "0 \<le> usec_of (getattr parsed ''nano'')"
    and "usec_of (getattr parsed ''nano'') \<le> 999999"
proof -
  from assms have "build_datetime (read_fix parsed) = Inr dt"
    by (rule frame_sample_Some)
  then obtain y mo d h mi s where
    "datetime_new y mo d h mi s (usec_of (nano (read_fix parsed))) = Inr dt"
    by (rule build_datetime_Inr)
  then have v: "0 \<le> usec_of (getattr parsed ''nano'') \<and> usec_of (getattr parsed ''nano'') \<le> 999999
      \<and> dt_microsecond dt = usec_of (getattr parsed ''nano'')"
    using datetime_new_valid [of y mo d h mi s "usec_of (getattr parsed ''nano'')" dt]
    by (simp add: read_fix_simps)
  from v show "dt_microsecond dt = usec_of (getattr parsed ''nano'')" by simp
  from v show "0 \<le> usec_of (getattr parsed ''nano'')" by simp
  from v show "usec_of (getattr parsed ''nano'') \<le> 999999" by simp
qed

lemma negative_usec_none:
  assumes "usec_of (getattr parsed ''nano'') < 0"
  shows "frame_sample parsed = None"
proof (rule ccontr)
  assume "frame_sample parsed \<noteq> None"
  then obtain dt la lo where "frame_sample parsed = Some (dt, la, lo)"
    by (cases "frame_sample parsed") auto
  then have "0 \<le> usec_of (getattr parsed ''nano'')"
    by (rule frame_sample_usec)
  with assms show False
    by simp
qed

lemma usec_of_unparsable:
  assumes "v = PyNone \<or> py_int v = Inl e"
  shows "usec_of v = 0"
  using assms by (auto simp: usec_of_def)

lemma frame_sample_nano_only:
  assumes "usec_of (getattr p ''nano'') = usec_of v"
  shows "frame_sample (p\<lparr>attrs := (attrs p)(''nano'' \<mapsto> v)\<rparr>) = frame_sample p"
proof -
  let ?q = "p\<lparr>attrs := (attrs p)(''nano'' \<mapsto> v)\<rparr>"
  have g: "getattr ?q ''lat'' = getattr p ''lat''" "getattr ?q ''lon'' = getattr p ''lon''"
    "getattr ?q ''year'' = getattr p ''year''" "getattr ?q ''month'' = getattr p ''month''"
    "getattr ?q ''day'' = getattr p ''day''" "getattr ?q ''hour'' = getattr p ''hour''"
    "getattr ?q ''min'' = getattr p ''min''" "getattr ?q ''second'' = getattr p ''second''"
    "getattr ?q ''nano'' = v"
    by (simp_all add: getattr_def)
  have b: "build_datetime (read_fix ?q) = build_datetime (read_fix p)"
    using assms by (simp add: build_datetime_def read_fix_simps g split: sum.split)
  have "sample_of (read_fix ?q) = sample_of (read_fix p)"
    by (simp add: sample_of_def b read_fix_simps g split: option.split)
  then show ?thesis
    by (simp add: frame_sample_def decode_fix_def)
qed

lemma required_none:
  assumes "name \<in> {''lat'', ''lon'', ''year'', ''month'', ''day'', ''hour'', ''min'', ''second''}"
    and "getattr parsed name = PyNone"
  shows "frame_sample parsed = None"
  using assms
  by (auto simp: frame_sample_def decode_fix_def sample_of_def read_fix_simps)

subsection \<open>The coordinates\<close>

lemma coord_small_int:
  assumes "\<bar>i\<bar> < 2 ^ 53"
  shows "coord (PyInt i) = Some (Finite (of_int i))"
  using int_to_double_small [OF assms] by (simp add: coord_def float_of_int_def)

lemma coord_number:
  assumes "is_number v"
  shows "coord v = (case py_float v of Inr x \<Rightarrow> Some x | Inl _ \<Rightarrow> None)"
proof (cases v)
  case (PyInt i)
  then show ?thesis
    by (cases "int_to_double i") (simp_all add: coord_def float_of_int_def truediv_1e7_def)
next
  case (PyFloat f)
  then show ?thesis by (simp add: coord_def)
qed (use assms in \<open>simp_all add: is_number_def\<close>)





subsection \<open>The loop over the files\<close>


lemma dir_loop_append: "dir_loop st (xs @ ys) = dir_loop (dir_loop st xs) ys"
proof (induction xs arbitrary: st)
  case Nil
  show ?case by simp
next
  case (Cons x xs)
  obtain results out where st: "st = (results, out)" by (cases st)
  obtain name stream where x: "x = (name, stream)" by (cases x)
  show ?case
    unfolding st x by (simp add: Cons.IH)
qed

lemma dir_loop_failed:
  assumes "snd stream = Some e"
  shows "dir_loop (results, out) ((name, stream) # rest) =
    dir_loop (AList.update name [] results, out @ [(name, e)]) rest"
  using assms by (simp add: collect_info_from_file_def)

text \<open>
  The file of an archive: an exception other than \<^verbatim>\<open>EOFError\<close> empties its entry
  and prints the warning; after an \<^verbatim>\<open>EOFError\<close> the file is treated as one that ended.
\<close>

lemma dir_loop_reader:
  "e \<noteq> EOFError \<Longrightarrow>
     dir_loop (results, out) ((name, ubx_reader (items, Some e)) # rest) =
       dir_loop (AList.update name [] results, out @ [(name, e)]) rest"
  "dir_loop (results, out) ((name, ubx_reader (items, Some EOFError)) # rest) =
     dir_loop (AList.update name (loop [] items) results, out) rest"
  "dir_loop (results, out) ((name, ubx_reader (items, None)) # rest) =
     dir_loop (AList.update name (loop [] items) results, out) rest"
  by (simp_all add: ubx_reader_def collect_info_from_file_def)

lemma dir_loop_out: "snd (dir_loop (results, out) files) = out @ snd (dir_loop ([], []) files)"
proof (induction files arbitrary: results out)
  case Nil
  show ?case by simp
next
  case (Cons x files)
  obtain name stream where x: "x = (name, stream)" by (cases x)
  show ?case
  proof (cases "collect_info_from_file stream")
    case (Inl e)
    then show ?thesis
      unfolding x
      using Cons.IH [of "AList.update name [] results" "out @ [(name, e)]"]
        Cons.IH [of "AList.update name [] []" "[(name, e)]"]
      by simp
  next
    case (Inr records)
    then show ?thesis
      unfolding x
      using Cons.IH [of "AList.update name records results" out]
        Cons.IH [of "AList.update name records []" "[]"]
      by simp
  qed
qed

lemma dir_loop_lookup_cong:
  assumes "map_of results k = map_of results' k"
  shows "map_of (fst (dir_loop (results, out) files)) k =
    map_of (fst (dir_loop (results', out') files)) k"
  using assms
proof (induction files arbitrary: results results' out out')
  case Nil
  then show ?case by simp
next
  case (Cons x files)
  obtain name stream where x: "x = (name, stream)" by (cases x)
  have u: "map_of (AList.update name v results) k = map_of (AList.update name v results') k" for v
    using Cons.prems by (simp add: update_conv')
  show ?case
    unfolding x
    by (cases "collect_info_from_file stream") (simp_all add: Cons.IH [OF u])
qed

lemma dir_loop_lookup_other:
  assumes "k \<notin> fst ` set files"
  shows "map_of (fst (dir_loop (results, out) files)) k = map_of results k"
  using assms
proof (induction files arbitrary: results out)
  case Nil
  show ?case by simp
next
  case (Cons x files)
  obtain name stream where x: "x = (name, stream)" by (cases x)
  from Cons.prems have k: "k \<noteq> name" and rest: "k \<notin> fst ` set files"
    by (auto simp: x)
  show ?case
    unfolding x
    using k by (cases "collect_info_from_file stream") (simp_all add: Cons.IH [OF rest] update_conv')
qed

subsection \<open>The region\<close>

text \<open>The doubles that the literals of the chain denote.\<close>

lemma literal_values:
  "literal 5983333 5 = 8420792584135497 / 140737488355328"
  "literal 6890596 5 = 1212206467889087 / 17592186044416"
  "literal 2137596 5 = 3008398921583957 / 140737488355328"
  "literal 3093276 5 = 8706797900596311 / 281474976710656"
  "literal 4583203 5 = 1612571197106511 / 35184372088832"
  "literal 4769732 5 = 6712801018080353 / 140737488355328"
  "literal 607544 5 = 427521083126747 / 70368744177664"
  "literal 983723 5 = 5537868170294733 / 562949953421312"
  "literal 1824306 5 = 1283741222157775 / 70368744177664"
  "literal 5233333 5 = 7365261421470537 / 140737488355328"
  "literal 7598951 5 = 668410798672005 / 8796093022208"
  "literal 13428917 5 = 36913125974847 / 274877906944"
  "literal 2434478 5 = 1713111595881511 / 70368744177664"
  "literal 4540944 5 = 6390810533221965 / 140737488355328"
  "literal 12415717 5 = 8736784133552739 / 70368744177664"
  "literal 145575 3 = 2560982483415859 / 17592186044416"
  "literal 128967 5 = 1452039332857727 / 1125899906842624"
  "literal 132808 5 = 5840957610467 / 4398046511104"
  "literal 103804641 6 = 1826150556745813 / 17592186044416"
  "literal 10384 2 = 3653545197704315 / 35184372088832"
  "literal 1950139 5 = 1372288324018855 / 70368744177664"
  "literal 6485694 5 = 4563901419006103 / 70368744177664"
  "literal 16175583 5 = 2845638655128927 / 17592186044416"
  "literal 6801197 5 = 4785916917948959 / 70368744177664"
  by (simp_all add: literal_def double_div_def compute_bitlen round_half_even_def)

lemma geofence_location: "fst (geofence la lo) = ''unknown''"
  by (simp add: geofence_def Let_def)

lemma geofence_prints_first_match:
  "snd (geofence la lo) = (case find (contains la lo) rules of None \<Rightarrow> [] | Some r \<Rightarrow> [fst r])"
  by (simp add: geofence_def rules_def Let_def)

subsection \<open>The frame decoder\<close>

text \<open>One step of the scan: at a marker, and at a position that is no marker.\<close>

lemma scan_step:
  "scan (s1, s2) validate (s1 # s2 # rest) =
     (case read_frame rest of
        None \<Rightarrow> []
      | Some (f, remaining) \<Rightarrow>
          if validate \<and> \<not> checksum_ok f
          then ChecksumFailure f # scan (s1, s2) validate (s2 # rest)
          else Yield f # scan (s1, s2) validate remaining)"
  by (subst scan.simps) simp

lemma scan_resync:
  "(s1, s2) \<noteq> sync \<Longrightarrow> scan sync validate (s1 # s2 # rest) = scan sync validate (s2 # rest)"
  by (subst scan.simps) simp

lemma scan_short: "scan sync validate [] = []" "scan sync validate [s1] = []"
  by (subst scan.simps, simp)+

text \<open>
  Every event of a scan: a frame that is yielded under validation has a matching
  checksum, and a failure is reported only under validation, for a frame whose checksum
  does not match.
\<close>

lemma scan_events:
  "ev \<in> set (scan sync validate bs) \<Longrightarrow>
     (case ev of
        Yield f \<Rightarrow> validate \<longrightarrow> checksum_ok f
      | ChecksumFailure f \<Rightarrow> validate \<and> \<not> checksum_ok f)"
proof (induction sync validate bs rule: scan.induct)
  case (1 sync validate bs)
  show ?case
  proof (cases bs)
    case Nil
    with "1.prems" show ?thesis by (simp add: scan_short)
  next
    case (Cons s1 tl)
    show ?thesis
    proof (cases tl)
      case Nil
      with Cons "1.prems" show ?thesis by (simp add: scan_short)
    next
      case (Cons s2 rest)
      note bs = \<open>bs = s1 # tl\<close> \<open>tl = s2 # rest\<close>
      show ?thesis
      proof (cases "(s1, s2) = sync")
        case False
        then have "scan sync validate bs = scan sync validate (s2 # rest)"
          unfolding bs by (rule scan_resync)
        with "1.prems" have "ev \<in> set (scan sync validate (s2 # rest))"
          by simp
        then show ?thesis
          by (rule "1.IH"(3) [OF bs False])
      next
        case sync: True
        show ?thesis
        proof (cases "read_frame rest")
          case None
          then have "scan sync validate bs = []"
            unfolding bs sync [symmetric] by (simp add: scan_step)
          with "1.prems" show ?thesis by simp
        next
          case (Some fr)
          obtain f remaining where fr: "fr = (f, remaining)" by (cases fr)
          show ?thesis
          proof (cases "validate \<and> \<not> checksum_ok f")
            case True
            then have "scan sync validate bs =
                ChecksumFailure f # scan sync validate (s2 # rest)"
              unfolding bs sync [symmetric] using Some fr by (simp add: scan_step)
            with "1.prems" consider "ev = ChecksumFailure f"
              | "ev \<in> set (scan sync validate (s2 # rest))"
              by auto
            then show ?thesis
            proof cases
              case 1
              with True show ?thesis by simp
            next
              case 2
              then show ?thesis
                by (rule "1.IH"(1) [OF bs sync Some fr [symmetric] True])
            qed
          next
            case False
            then have "scan sync validate bs = Yield f # scan sync validate remaining"
              unfolding bs sync [symmetric] using Some fr by (simp add: scan_step)
            with "1.prems" consider "ev = Yield f"
              | "ev \<in> set (scan sync validate remaining)"
              by auto
            then show ?thesis
            proof cases
              case 1
              with False show ?thesis by auto
            next
              case 2
              then show ?thesis
                by (rule "1.IH"(2) [OF bs sync Some fr [symmetric] False])
            qed
          qed
        qed
      qed
    qed
  qed
qed

subsection \<open>The example inputs\<close>

lemma getattr_mk_msg:
  "getattr (mk_msg ident kvs) name = (case map_of kvs name of None \<Rightarrow> PyNone | Some v \<Rightarrow> v)"
  by (simp add: getattr_def mk_msg_def)

lemma pvt_attrs:
  "identity (pvt la lo mo ns) = Some ''NAV-PVT''"
  "getattr (pvt la lo mo ns) ''lat'' = la" "getattr (pvt la lo mo ns) ''lon'' = lo"
  "getattr (pvt la lo mo ns) ''year'' = PyInt 2025"
  "getattr (pvt la lo mo ns) ''month'' = PyInt mo"
  "getattr (pvt la lo mo ns) ''day'' = PyInt 12" "getattr (pvt la lo mo ns) ''hour'' = PyInt 0"
  "getattr (pvt la lo mo ns) ''min'' = PyInt 53"
  "getattr (pvt la lo mo ns) ''second'' = PyInt 40"
  "getattr (pvt la lo mo ns) ''nano'' = ns"
  by (simp_all add: pvt_def getattr_mk_msg) (simp add: mk_msg_def)

lemma frame_sample_pvt:
  assumes "coord la = Some x" "coord lo = Some z" "la \<noteq> PyNone" "lo \<noteq> PyNone"
    and "1 \<le> mo" "mo \<le> 12" "0 \<le> usec_of ns" "usec_of ns \<le> 999999"
  shows "frame_sample (pvt la lo mo ns) = Some (stamp mo (usec_of ns), x, z)"
proof -
  have dim: "12 \<le> days_in_month 2025 mo"
    using days_in_month_length [OF assms(5,6), of 2025] by (simp add: month_length_def)
  have "build_datetime (read_fix (pvt la lo mo ns)) = Inr (stamp mo (usec_of ns))"
    using assms(5-8) dim
    by (simp add: build_datetime_def read_fix_simps pvt_attrs datetime_new_def stamp_def)
  then show ?thesis
    using assms(1-4)
    by (auto simp add: frame_sample_def decode_fix_def sample_of_def read_fix_simps pvt_attrs)
qed

lemma frame_sample_sg: "frame_sample sg_msg = Some (stamp 9 299, Finite 1.30, Finite 103.82)"
  unfolding sg_msg_def
  by (rule frame_sample_pvt [THEN trans]) (simp_all add: coord_def usec_of_def)

lemma frame_sample_fi: "frame_sample fi_msg = Some (stamp 9 0, Finite 61.0, Finite 25.0)"
  unfolding fi_msg_def
  by (rule frame_sample_pvt [THEN trans]) (simp_all add: coord_def usec_of_def)

lemma checksum_examples: "checksum_ok good_frame" "\<not> checksum_ok bad_frame"
  by (simp_all add: checksum_ok_def checksum_def good_frame_def bad_frame_def)

lemma scan_two_frames:
  "scan (0xB5, 0x62) True two_frames = [ChecksumFailure bad_frame, Yield good_frame]"
  "scan (0xB5, 0x62) False two_frames = [Yield bad_frame, Yield good_frame]"
  by (simp_all add: scan.simps two_frames_def frame_bytes_def read_frame_def checksum_ok_def
      checksum_def good_frame_def bad_frame_def)

lemma read_first_frame:
  "read_frame ([1, 7, 2, 0, 1, 2, 13, 54] @ frame_bytes 53) = Some (bad_frame, frame_bytes 53)"
  by (simp add: read_frame_def frame_bytes_def good_frame_def bad_frame_def)

subsection \<open>The fix message of a payload\<close>







section \<open>The claims\<close>

subsection \<open>C1: frames with a wrong checksum\<close>

text \<open>
  C1, as amended. A decoder that validates yields only frames whose checksum matches;
  a frame whose checksum does not match is reported as a checksum failure, and the scan
  resumes one byte past the start of its marker. The decoder of the script runs with
  \<^verbatim>\<open>validate=False\<close>: it reports no checksum failure, and the frame at a marker is
  yielded whatever its two checksum bytes are.
\<close>

theorem checksum_checked_only_when_validating:
  "(\<forall>f. Yield f \<in> set (scan sync True bs) \<longrightarrow> checksum_ok f) \<and>
   (\<forall>f. ChecksumFailure f \<in> set (scan sync True bs) \<longrightarrow> \<not> checksum_ok f) \<and>
   (read_frame rest = Some (g, remaining) \<and> \<not> checksum_ok g \<longrightarrow>
      scan (s1, s2) True (s1 # s2 # rest) = ChecksumFailure g # scan (s1, s2) True (s2 # rest)) \<and>
   (\<forall>f. ChecksumFailure f \<notin> set (file_frames sync bs)) \<and>
   (read_frame rest = Some (g, remaining) \<longrightarrow>
      file_frames (s1, s2) (s1 # s2 # rest) = Yield g # file_frames (s1, s2) remaining)"
proof (intro conjI allI impI)
  fix f
  assume "Yield f \<in> set (scan sync True bs)"
  then show "checksum_ok f"
    using scan_events [of "Yield f" sync True bs] by simp
next
  fix f
  assume "ChecksumFailure f \<in> set (scan sync True bs)"
  then show "\<not> checksum_ok f"
    using scan_events [of "ChecksumFailure f" sync True bs] by simp
next
  assume "read_frame rest = Some (g, remaining) \<and> \<not> checksum_ok g"
  then show "scan (s1, s2) True (s1 # s2 # rest) =
      ChecksumFailure g # scan (s1, s2) True (s2 # rest)"
    by (simp add: scan_step)
next
  fix f
  show "ChecksumFailure f \<notin> set (file_frames sync bs)"
  proof
    assume "ChecksumFailure f \<in> set (file_frames sync bs)"
    then show False
      using scan_events [of "ChecksumFailure f" sync False bs] by (simp add: file_frames_def)
  qed
next
  assume "read_frame rest = Some (g, remaining)"
  then show "file_frames (s1, s2) (s1 # s2 # rest) = Yield g # file_frames (s1, s2) remaining"
    by (simp add: file_frames_def scan_step)
qed

text \<open>
  The witness: on the two frames a validating decoder reports the first and yields the
  second; the decoder of the script yields the first.
\<close>

theorem checksum_checked_only_when_validating_witness:
  "scan (0xB5, 0x62) True two_frames = [ChecksumFailure bad_frame, Yield good_frame] \<and>
   checksum_ok good_frame \<and> \<not> checksum_ok bad_frame \<and>
   read_frame ([1, 7, 2, 0, 1, 2, 13, 54] @ frame_bytes 53) = Some (bad_frame, frame_bytes 53) \<and>
   ChecksumFailure bad_frame \<notin> set (file_frames (0xB5, 0x62) two_frames) \<and>
   file_frames (0xB5, 0x62) (0xB5 # 0x62 # [1, 7, 2, 0, 1, 2, 13, 54] @ frame_bytes 53) =
     Yield bad_frame # file_frames (0xB5, 0x62) (frame_bytes 53)"
proof -
  note w = checksum_checked_only_when_validating [where sync = "(0xB5, 0x62)"
        and bs = two_frames and ?s1.0 = "0xB5" and ?s2.0 = "0x62"
        and rest = "[1, 7, 2, 0, 1, 2, 13, 54] @ frame_bytes 53" and g = bad_frame
        and remaining = "frame_bytes 53"]
  from w have a: "ChecksumFailure bad_frame \<notin> set (file_frames (0xB5, 0x62) two_frames)"
    by blast
  from w read_first_frame
  have b: "file_frames (0xB5, 0x62) (0xB5 # 0x62 # [1, 7, 2, 0, 1, 2, 13, 54] @ frame_bytes 53) =
      Yield bad_frame # file_frames (0xB5, 0x62) (frame_bytes 53)"
    by blast
  from a b scan_two_frames(1) checksum_examples read_first_frame show ?thesis
    by blast
qed

text \<open>
  C1 as stated fails: the decoder of the script yields the first of the two frames, whose
  checksum does not match, and reports nothing.
\<close>

theorem bad_checksum_frame_yielded_counterexample:
  "file_frames (0xB5, 0x62) two_frames = [Yield bad_frame, Yield good_frame] \<and>
   \<not> checksum_ok bad_frame"
  using scan_two_frames(2) checksum_examples(2) by (simp add: file_frames_def)

subsection \<open>C2: the region label\<close>

text \<open>
  C2. The claim fails on the code at (1.30, 103.82) and at (61.0, 25.0): the classifier of
  the specification gives Singapore and Finland, and the chain prints those names, but
  the label \<^verbatim>\<open>location\<close> that the summary line reports stays \<open>''unknown''\<close>. At (0.0, 0.0)
  the label is \<open>''unknown''\<close> and nothing is printed.
\<close>

theorem geofence_singapore_location_unknown:
  "geofence (Finite 1.30) (Finite 103.82) = (''unknown'', [''Singapore'']) \<and>
   classify_spec (Finite 1.30) (Finite 103.82) = ''Singapore'' \<and>
   geofence (Finite 61.0) (Finite 25.0) = (''unknown'', [''Finland'']) \<and>
   classify_spec (Finite 61.0) (Finite 25.0) = ''Finland'' \<and>
   geofence (Finite 0.0) (Finite 0.0) = (''unknown'', []) \<and>
   classify_spec (Finite 0.0) (Finite 0.0) = ''unknown''"
  by (simp add: geofence_def classify_spec_def rules_def literal_values)

subsection \<open>C3: raw integer coordinates\<close>



subsection \<open>C4: payloads that are too short\<close>




subsection \<open>C5: nanoseconds to microseconds\<close>

text \<open>
  C5, as amended. The microsecond of a sample is \<^verbatim>\<open>int(nano) // 1000\<close>, the quotient
  rounded down. The field of a sample is not negative, and there the quotient rounded
  down and the truncated quotient \<open>sdiv\<close> are the same number. A field that is absent or
  that \<^verbatim>\<open>int()\<close> refuses counts as zero: the record gives what it gives with
  \<open>nano = 0\<close>.
\<close>

theorem usec_floor_of_nano:
  "(frame_sample parsed = Some (dt, la, lo) \<longrightarrow>
      (case py_int (getattr parsed ''nano'') of
         Inr n \<Rightarrow> dt_microsecond dt = n div 1000 \<and> 0 \<le> n \<and> n div 1000 = n sdiv 1000
       | Inl _ \<Rightarrow> dt_microsecond dt = 0)) \<and>
   (getattr parsed ''nano'' = PyNone \<or> py_int (getattr parsed ''nano'') = Inl e \<longrightarrow>
      frame_sample parsed =
        frame_sample (parsed\<lparr>attrs := (attrs parsed)(''nano'' \<mapsto> PyInt 0)\<rparr>))"
proof (intro conjI impI)
  assume s: "frame_sample parsed = Some (dt, la, lo)"
  let ?v = "getattr parsed ''nano''"
  have us: "dt_microsecond dt = usec_of ?v" and nn: "0 \<le> usec_of ?v"
    using s by (rule frame_sample_usec)+
  show "case py_int ?v of
      Inr n \<Rightarrow> dt_microsecond dt = n div 1000 \<and> 0 \<le> n \<and> n div 1000 = n sdiv 1000
    | Inl _ \<Rightarrow> dt_microsecond dt = 0"
  proof (cases "py_int ?v")
    case (Inl x)
    then show ?thesis
      using us by (simp add: usec_of_def)
  next
    case (Inr n)
    then have "?v \<noteq> PyNone" by auto
    with Inr have u: "usec_of ?v = n div 1000"
      by (simp add: usec_of_def)
    with nn have n0: "0 \<le> n"
      by (simp add: pos_imp_zdiv_nonneg_iff)
    then have "n sdiv 1000 = n div 1000"
      by (simp add: signed_divide_int_def sgn_if)
    with Inr u us n0 show ?thesis by simp
  qed
next
  assume a: "getattr parsed ''nano'' = PyNone \<or> py_int (getattr parsed ''nano'') = Inl e"
  have "usec_of (getattr parsed ''nano'') = usec_of (PyInt 0)"
    using usec_of_unparsable [OF a] by (simp add: usec_of_def)
  then show "frame_sample parsed =
      frame_sample (parsed\<lparr>attrs := (attrs parsed)(''nano'' \<mapsto> PyInt 0)\<rparr>)"
    by (rule frame_sample_nano_only [symmetric])
qed

text \<open>
  The witness: 299999 nanoseconds give 299 microseconds, not 300; a record without
  \<^verbatim>\<open>nano\<close> and a record whose \<^verbatim>\<open>nano\<close> has no conversion give a sample at microsecond 0.
\<close>

theorem usec_floor_of_nano_witness:
  "frame_sample (pvt (PyFloat (Finite 1.30)) (PyFloat (Finite 103.82)) 9 (PyInt 299999)) =
     Some (stamp 9 299, Finite 1.30, Finite 103.82) \<and>
   dt_microsecond (stamp 9 299) = 299999 div 1000 \<and>
   (299999 :: int) div 1000 = 299999 sdiv 1000 \<and>
   getattr fi_msg ''nano'' = PyNone \<and>
   frame_sample (fi_msg\<lparr>attrs := (attrs fi_msg)(''nano'' \<mapsto> PyInt 0)\<rparr>) =
     Some (stamp 9 0, Finite 61.0, Finite 25.0) \<and>
   py_int (getattr (pvt (PyFloat (Finite 61.0)) (PyFloat (Finite 25.0)) 9 PyOther) ''nano'') =
     Inl TypeError \<and>
   frame_sample (pvt (PyFloat (Finite 61.0)) (PyFloat (Finite 25.0)) 9 PyOther) =
     Some (stamp 9 0, Finite 61.0, Finite 25.0)"
proof -
  let ?p = "pvt (PyFloat (Finite 1.30)) (PyFloat (Finite 103.82)) 9 (PyInt 299999)"
  let ?o = "pvt (PyFloat (Finite 61.0)) (PyFloat (Finite 25.0)) 9 PyOther"
  have p: "frame_sample ?p = Some (stamp 9 299, Finite 1.30, Finite 103.82)"
    by (rule frame_sample_pvt [THEN trans]) (simp_all add: coord_def usec_of_def)
  have n: "getattr fi_msg ''nano'' = PyNone"
    by (simp add: fi_msg_def pvt_attrs)
  have o: "frame_sample ?o = Some (stamp 9 0, Finite 61.0, Finite 25.0)"
    by (rule frame_sample_pvt [THEN trans]) (simp_all add: coord_def usec_of_def)
  show ?thesis
    using p n o frame_sample_fi
      usec_floor_of_nano [where parsed = ?p and dt = "stamp 9 299" and la = "Finite 1.30"
        and lo = "Finite 103.82"]
      usec_floor_of_nano [where parsed = fi_msg and e = TypeError]
    by (simp add: pvt_attrs)
qed

text \<open>
  C5 as stated fails: the division does not truncate. For \<open>- 500\<close> nanoseconds the
  truncated quotient is 0, a valid microsecond; the script computes \<open>- 500 // 1000 = - 1\<close>
  and the record, whose calendar fields are valid, gives no sample.
\<close>

theorem usec_truncation_counterexample:
  "(- 500 :: int) sdiv 1000 = 0 \<and>
   usec_of (PyInt (- 500)) = - 1 \<and>
   frame_sample (pvt (PyFloat (Finite 1.30)) (PyFloat (Finite 103.82)) 9 (PyInt (- 500))) = None \<and>
   frame_sample (pvt (PyFloat (Finite 1.30)) (PyFloat (Finite 103.82)) 9 (PyInt 0)) =
     Some (stamp 9 0, Finite 1.30, Finite 103.82)"
proof -
  have t: "(- 500 :: int) sdiv 1000 = 0"
    by (simp add: signed_divide_int_def)
  have u: "usec_of (PyInt (- 500)) = - 1"
    by (simp add: usec_of_def)
  have "frame_sample (pvt (PyFloat (Finite 1.30)) (PyFloat (Finite 103.82)) 9 (PyInt (- 500))) =
      None"
    by (rule negative_usec_none) (simp add: pvt_attrs u)
  moreover
  have "frame_sample (pvt (PyFloat (Finite 1.30)) (PyFloat (Finite 103.82)) 9 (PyInt 0)) =
      Some (stamp 9 0, Finite 1.30, Finite 103.82)"
    by (rule frame_sample_pvt [THEN trans]) (simp_all add: coord_def usec_of_def)
  ultimately show ?thesis
    using t u by simp
qed

subsection \<open>C6: records that are no valid date and time\<close>

text \<open>
  C6. A NAV-PVT record whose calendar fields, as \<^verbatim>\<open>int()\<close> reads them, do not form a
  valid date and time gives no sample: nothing is corrected or clamped. The result of
  the file is then the samples of its other frames, in the order of the frames.
\<close>

theorem invalid_calendar_skipped:
  assumes "py_int (getattr parsed ''year'') = Inr y"
    and "py_int (getattr parsed ''month'') = Inr mo"
    and "py_int (getattr parsed ''day'') = Inr d"
    and "py_int (getattr parsed ''hour'') = Inr h"
    and "py_int (getattr parsed ''min'') = Inr mi"
    and "py_int (getattr parsed ''second'') = Inr s"
    and "\<not> valid_calendar y mo d h mi s"
  shows "frame_sample parsed = None \<and>
    collect_info_from_file (xs @ (raw, parsed) # ys, None) =
      Inr (List.map_filter (frame_sample \<circ> snd) (xs @ ys))"
proof -
  have none: "frame_sample parsed = None"
  proof (rule ccontr)
    assume "frame_sample parsed \<noteq> None"
    then obtain dt la lo where "frame_sample parsed = Some (dt, la, lo)"
      by (cases "frame_sample parsed") auto
    then have "build_datetime (read_fix parsed) = Inr dt"
      by (rule frame_sample_Some)
    then obtain y' mo' d' h' mi' s' where
      f: "py_int (year (read_fix parsed)) = Inr y'" "py_int (month (read_fix parsed)) = Inr mo'"
        "py_int (day (read_fix parsed)) = Inr d'" "py_int (hour (read_fix parsed)) = Inr h'"
        "py_int (minute (read_fix parsed)) = Inr mi'" "py_int (second (read_fix parsed)) = Inr s'"
      and n: "datetime_new y' mo' d' h' mi' s' (usec_of (nano (read_fix parsed))) = Inr dt"
      by (rule build_datetime_Inr)
    from f assms(1-6) have "y' = y" "mo' = mo" "d' = d" "h' = h" "mi' = mi" "s' = s"
      by (simp_all add: read_fix_simps)
    with n have "valid_calendar y mo d h mi s"
      using datetime_new_valid by blast
    with assms(7) show False by simp
  qed
  have "collect_info_from_file (xs @ (raw, parsed) # ys, None) =
      collect_info_from_file (xs @ ys, None)"
    using none by (rule collect_skip)
  also have "\<dots> = Inr (List.map_filter (frame_sample \<circ> snd) (xs @ ys))"
    by (simp add: collect_info_from_file_def loop_map_filter)
  finally show ?thesis using none by simp
qed

text \<open>The witness: a record with month 13 between two valid records.\<close>

theorem invalid_calendar_skipped_witness:
  "\<not> valid_calendar 2025 13 12 0 53 40 \<and>
   frame_sample (pvt (PyFloat (Finite 1.30)) (PyFloat (Finite 103.82)) 13 (PyInt 0)) = None \<and>
   collect_info_from_file
     ([([], sg_msg), ([], pvt (PyFloat (Finite 1.30)) (PyFloat (Finite 103.82)) 13 (PyInt 0)),
       ([], fi_msg)], None) =
     Inr [(stamp 9 299, Finite 1.30, Finite 103.82), (stamp 9 0, Finite 61.0, Finite 25.0)]"
proof -
  have inv: "\<not> valid_calendar 2025 13 12 0 53 40"
    by (simp add: valid_calendar_def)
  show ?thesis
    using inv
      invalid_calendar_skipped [where
        parsed = "pvt (PyFloat (Finite 1.30)) (PyFloat (Finite 103.82)) 13 (PyInt 0)"
        and y = 2025 and mo = 13 and d = 12 and h = 0 and mi = 53 and s = 40
        and xs = "[([], sg_msg)]" and ys = "[([], fi_msg)]" and raw = "[]"]
    by (simp add: pvt_attrs List.map_filter_simps frame_sample_sg frame_sample_fi)
qed

subsection \<open>C7: files that fail to decompress\<close>

text \<open>
  C7, as amended. When the reads of an archive end with an exception other than
  \<^verbatim>\<open>EOFError\<close> (a file that is not gzip, a wrong check value), the file is entered in
  the results with an empty list and one warning with its name and the exception is
  printed. When they end with \<^verbatim>\<open>EOFError\<close> (a truncated archive), the file is entered
  with the samples of the frames read before the end, and no warning is printed. In both
  cases every other name has the result it has when the file is left out of the
  directory, and the warnings of the other files are the same.
\<close>

theorem failed_archive_isolated:
  assumes "name \<notin> fst ` set after"
  shows
    "(e \<noteq> EOFError \<longrightarrow>
       map_of (fst (dir_loop ([], []) (before @ (name, ubx_reader (items, Some e)) # after))) name =
         Some [] \<and>
       snd (dir_loop ([], []) (before @ (name, ubx_reader (items, Some e)) # after)) =
         snd (dir_loop ([], []) before) @ (name, e) # snd (dir_loop ([], []) after)) \<and>
     (e = EOFError \<longrightarrow>
       map_of (fst (dir_loop ([], []) (before @ (name, ubx_reader (items, Some e)) # after))) name =
         Some (loop [] items) \<and>
       snd (dir_loop ([], []) (before @ (name, ubx_reader (items, Some e)) # after)) =
         snd (dir_loop ([], []) before) @ snd (dir_loop ([], []) after)) \<and>
     snd (dir_loop ([], []) (before @ after)) =
       snd (dir_loop ([], []) before) @ snd (dir_loop ([], []) after) \<and>
     (\<forall>other. other \<noteq> name \<longrightarrow>
        map_of (fst (dir_loop ([], []) (before @ (name, ubx_reader (items, Some e)) # after))) other =
        map_of (fst (dir_loop ([], []) (before @ after))) other)"
proof -
  let ?full = "dir_loop ([], []) (before @ (name, ubx_reader (items, Some e)) # after)"
  obtain results out where b: "dir_loop ([], []) before = (results, out)"
    by (cases "dir_loop ([], []) before")
  have part: "dir_loop ([], []) (before @ after) = dir_loop (results, out) after"
    by (simp add: dir_loop_append b)
  have raised: "?full = dir_loop (AList.update name [] results, out @ [(name, e)]) after"
    if "e \<noteq> EOFError"
    using dir_loop_reader(1) [OF that, of results out name items after]
    by (simp only: dir_loop_append b)
  have ended: "?full = dir_loop (AList.update name (loop [] items) results, out) after"
    if "e = EOFError"
    using dir_loop_reader(2) [of results out name items after]
    by (simp only: dir_loop_append b that)
  have 1: "map_of (fst ?full) name = Some [] \<and>
      snd ?full = snd (dir_loop ([], []) before) @ (name, e) # snd (dir_loop ([], []) after)"
    if "e \<noteq> EOFError"
    unfolding raised [OF that] b
    using assms dir_loop_out [of "AList.update name [] results" "out @ [(name, e)]" after]
    by (simp add: dir_loop_lookup_other update_conv')
  have 2: "map_of (fst ?full) name = Some (loop [] items) \<and>
      snd ?full = snd (dir_loop ([], []) before) @ snd (dir_loop ([], []) after)"
    if "e = EOFError"
    unfolding ended [OF that] b
    using assms dir_loop_out [of "AList.update name (loop [] items) results" out after]
    by (simp add: dir_loop_lookup_other update_conv')
  have 3: "snd (dir_loop ([], []) (before @ after)) =
      snd (dir_loop ([], []) before) @ snd (dir_loop ([], []) after)"
    unfolding part b using dir_loop_out [of results out after] by simp
  have 4: "map_of (fst ?full) other = map_of (fst (dir_loop ([], []) (before @ after))) other"
    if "other \<noteq> name" for other
  proof (cases "e = EOFError")
    case True
    show ?thesis
      unfolding ended [OF True] part
      using that by (intro dir_loop_lookup_cong) (simp add: update_conv')
  next
    case False
    show ?thesis
      unfolding raised [OF False] part
      using that by (intro dir_loop_lookup_cong) (simp add: update_conv')
  qed
  from 1 2 3 4 show ?thesis by blast
qed

text \<open>
  The witness: of three files the second is no gzip file, and then a truncated archive;
  the frame it yielded is lost with the first and kept with the second.
\<close>

theorem failed_archive_isolated_witness:
  "collect_info_from_dir
     (Some [(''a.ubz'', ([([], sg_msg)], None)),
            (''b.ubz'', ubx_reader ([([], sg_msg)], Some BadGzipFile)),
            (''c.ubz'', ([([], fi_msg)], None))]) =
     Inr ([(''a.ubz'', [(stamp 9 299, Finite 1.30, Finite 103.82)]),
           (''b.ubz'', []),
           (''c.ubz'', [(stamp 9 0, Finite 61.0, Finite 25.0)])],
          [(''b.ubz'', BadGzipFile)]) \<and>
   collect_info_from_dir
     (Some [(''a.ubz'', ([([], sg_msg)], None)),
            (''b.ubz'', ubx_reader ([([], sg_msg)], Some EOFError)),
            (''c.ubz'', ([([], fi_msg)], None))]) =
     Inr ([(''a.ubz'', [(stamp 9 299, Finite 1.30, Finite 103.82)]),
           (''b.ubz'', [(stamp 9 299, Finite 1.30, Finite 103.82)]),
           (''c.ubz'', [(stamp 9 0, Finite 61.0, Finite 25.0)])],
          []) \<and>
   collect_info_from_dir
     (Some [(''a.ubz'', ([([], sg_msg)], None)), (''c.ubz'', ([([], fi_msg)], None))]) =
     Inr ([(''a.ubz'', [(stamp 9 299, Finite 1.30, Finite 103.82)]),
           (''c.ubz'', [(stamp 9 0, Finite 61.0, Finite 25.0)])],
          [])"
proof -
  have c: "''b.ubz'' \<notin> fst ` set [(''c.ubz'', ([([] :: byte list, fi_msg)], None :: exn option))]"
    by simp
  show ?thesis
    using failed_archive_isolated [where e = BadGzipFile and name = "''b.ubz''"
        and items = "[([], sg_msg)]"
        and before = "[(''a.ubz'', ([([], sg_msg)], None))]"
        and after = "[(''c.ubz'', ([([], fi_msg)], None))]", OF c]
      failed_archive_isolated [where e = EOFError and name = "''b.ubz''"
        and items = "[([], sg_msg)]"
        and before = "[(''a.ubz'', ([([], sg_msg)], None))]"
        and after = "[(''c.ubz'', ([([], fi_msg)], None))]", OF c]
    by (simp add: collect_info_from_dir_def collect_info_from_file_def ubx_reader_def
        frame_step_def frame_sample_sg frame_sample_fi)
qed

text \<open>
  C7 as stated fails: a truncated archive gives the samples read before the truncation,
  not an empty list, and no warning.
\<close>

theorem truncated_archive_counterexample:
  "collect_info_from_dir (Some [(''a.ubz'', ubx_reader ([([], sg_msg)], Some EOFError))]) =
     Inr ([(''a.ubz'', [(stamp 9 299, Finite 1.30, Finite 103.82)])], [])"
  by (simp add: collect_info_from_dir_def collect_info_from_file_def ubx_reader_def
      frame_step_def frame_sample_sg)

subsection \<open>C8: frames of other types\<close>

text \<open>
  C8. The loop reads a fix record from a frame if and only if the identity of the parsed
  message is \<^verbatim>\<open>NAV-PVT\<close>. A frame of any other identity is skipped: the step leaves
  the records as they are, and the file gives what it gives without the frame, with the
  same end of the iteration (the frame raises nothing).
\<close>

theorem fix_record_iff_nav_pvt:
  "(decode_fix parsed \<noteq> None \<longleftrightarrow> identity parsed = Some ''NAV-PVT'') \<and>
   (identity parsed \<noteq> Some ''NAV-PVT'' \<longrightarrow>
      frame_step records (raw, parsed) = records \<and>
      collect_info_from_file (xs @ (raw, parsed) # ys, t) =
        collect_info_from_file (xs @ ys, t))"
proof -
  have a: "decode_fix parsed \<noteq> None \<longleftrightarrow> identity parsed = Some ''NAV-PVT''"
    by (simp add: decode_fix_def)
  have b: "frame_sample parsed = None" if "identity parsed \<noteq> Some ''NAV-PVT''"
    using that by (simp add: frame_sample_def decode_fix_def)
  show ?thesis
    using a b collect_skip [of parsed xs raw ys t] by (simp add: frame_step_def)
qed

theorem fix_record_iff_nav_pvt_witness:
  "decode_fix sg_msg \<noteq> None \<and>
   decode_fix (mk_msg ''NAV-SAT'' []) = None \<and>
   frame_step [] ([], mk_msg ''NAV-SAT'' []) = [] \<and>
   collect_info_from_file ([([], mk_msg ''NAV-SAT'' []), ([], sg_msg)], None) =
     Inr [(stamp 9 299, Finite 1.30, Finite 103.82)]"
proof -
  have sg: "identity sg_msg = Some ''NAV-PVT''"
    by (simp add: sg_msg_def pvt_attrs)
  have sat: "identity (mk_msg ''NAV-SAT'' []) \<noteq> Some ''NAV-PVT''"
    by (simp add: mk_msg_def)
  have "collect_info_from_file ([([], sg_msg)], None) =
      Inr [(stamp 9 299, Finite 1.30, Finite 103.82)]"
    by (simp add: collect_info_from_file_def frame_step_def frame_sample_sg)
  then show ?thesis
    using sg sat
      fix_record_iff_nav_pvt [where parsed = sg_msg]
      fix_record_iff_nav_pvt [where parsed = "mk_msg ''NAV-SAT'' []" and records = "[]"
        and raw = "[]" and xs = "[]" and ys = "[([], sg_msg)]" and t = None]
    by simp
qed

subsection \<open>C9: the two paths of the coordinate conversion\<close>

text \<open>
  C9. On every int and every float the conversion of a coordinate is plain \<^verbatim>\<open>float()\<close>:
  the fallback never gives a value there. On the values that a latitude or longitude can
  take, a float or a signed 32-bit integer, \<^verbatim>\<open>float()\<close> succeeds, so the fallback is not
  reached, and the coordinate is the value of \<^verbatim>\<open>float()\<close>.
\<close>

theorem coord_is_float_on_numbers:
  "(is_number v \<longrightarrow> coord v = (case py_float v of Inr x \<Rightarrow> Some x | Inl _ \<Rightarrow> None)) \<and>
   (v = PyFloat f \<longrightarrow> py_float v = Inr f \<and> coord v = Some f) \<and>
   (v = PyInt i \<and> - (2 ^ 31) \<le> i \<and> i < 2 ^ 31 \<longrightarrow>
      py_float v = Inr (Finite (of_int i)) \<and> coord v = Some (Finite (of_int i)))"
proof (intro conjI impI)
  assume "is_number v"
  then show "coord v = (case py_float v of Inr x \<Rightarrow> Some x | Inl _ \<Rightarrow> None)"
    by (rule coord_number)
next
  assume "v = PyFloat f"
  then show "py_float v = Inr f" and "coord v = Some f"
    by (simp_all add: coord_def)
next
  assume v: "v = PyInt i \<and> - (2 ^ 31) \<le> i \<and> i < 2 ^ 31"
  then have "- (2 ^ 31) \<le> i" and "i < 2 ^ 31"
    by simp_all
  then have small: "\<bar>i\<bar> < 2 ^ 53"
    by simp
  show "py_float v = Inr (Finite (of_int i))"
    using v int_to_double_small [OF small] by (simp add: float_of_int_def)
  show "coord v = Some (Finite (of_int i))"
    using v coord_small_int [OF small] by simp
qed

theorem coord_is_float_on_numbers_witness:
  "is_number (PyInt 1307800) \<and> - (2 ^ 31) \<le> (1307800::int) \<and> (1307800::int) < 2 ^ 31 \<and>
   py_float (PyInt 1307800) = Inr (Finite 1307800) \<and>
   coord (PyInt 1307800) = Some (Finite 1307800) \<and>
   is_number (PyFloat (Finite 1.30)) \<and>
   py_float (PyFloat (Finite 1.30)) = Inr (Finite 1.30) \<and>
   coord (PyFloat (Finite 1.30)) = Some (Finite 1.30)"
  using coord_is_float_on_numbers [of "PyInt 1307800" NaN 1307800]
    coord_is_float_on_numbers [of "PyFloat (Finite 1.30)" "Finite 1.30" 0]
  by (simp add: is_number_def)

subsection \<open>C10: negative nanoseconds\<close>

text \<open>
  C10. A record whose \<^verbatim>\<open>nano\<close> is an int \<open>n\<close> with \<open>n // 1000 < 0\<close> gives no sample,
  whatever its other fields are: \<^verbatim>\<open>datetime()\<close> refuses the negative microsecond and
  the handler of line 68 skips the record. (Since \<^verbatim>\<open>//\<close> rounds down, every negative
  \<open>n\<close> has \<open>n // 1000 < 0\<close>, those of magnitude below 1000 too.)
\<close>

theorem negative_nano_skipped:
  assumes "getattr parsed ''nano'' = PyInt n" and "n div 1000 < 0"
  shows "frame_sample parsed = None \<and> frame_step records (raw, parsed) = records"
proof -
  have "usec_of (getattr parsed ''nano'') < 0"
    using assms by (simp add: usec_of_def)
  then have "frame_sample parsed = None"
    by (rule negative_usec_none)
  then show ?thesis
    by (simp add: frame_step_def)
qed

text \<open>
  The witness: \<open>- 1000\<close> nanoseconds on a record whose calendar fields are valid, as the
  same record with 0 nanoseconds shows.
\<close>

theorem negative_nano_skipped_witness:
  "(- 1000 :: int) div 1000 < 0 \<and>
   frame_sample (pvt (PyFloat (Finite 1.30)) (PyFloat (Finite 103.82)) 9 (PyInt (- 1000))) = None \<and>
   frame_sample (pvt (PyFloat (Finite 1.30)) (PyFloat (Finite 103.82)) 9 (PyInt 0)) =
     Some (stamp 9 0, Finite 1.30, Finite 103.82) \<and>
   frame_step [(stamp 9 0, Finite 1.30, Finite 103.82)]
     ([], pvt (PyFloat (Finite 1.30)) (PyFloat (Finite 103.82)) 9 (PyInt (- 1000))) =
     [(stamp 9 0, Finite 1.30, Finite 103.82)]"
proof -
  have neg: "(- 1000 :: int) div 1000 < 0"
    by simp
  have ok: "frame_sample (pvt (PyFloat (Finite 1.30)) (PyFloat (Finite 103.82)) 9 (PyInt 0)) =
      Some (stamp 9 0, Finite 1.30, Finite 103.82)"
    by (rule frame_sample_pvt [THEN trans]) (simp_all add: coord_def usec_of_def)
  show ?thesis
    using neg ok
      negative_nano_skipped [where
        parsed = "pvt (PyFloat (Finite 1.30)) (PyFloat (Finite 103.82)) 9 (PyInt (- 1000))"
        and n = "- 1000" and raw = "[]" and records = "[(stamp 9 0, Finite 1.30, Finite 103.82)]"]
    by (simp add: pvt_attrs)
qed

section \<open>Further properties\<close>

text \<open>
  The result of a file whose stream ends by exhaustion is the samples of its frames, in
  the order of the frames; a stream that ends with an exception gives the exception.
\<close>

theorem records_in_decode_order:
  "collect_info_from_file (items, None) = Inr (List.map_filter (frame_sample \<circ> snd) items) \<and>
   collect_info_from_file (items, Some e) = Inl e"
  by (simp add: collect_info_from_file_def loop_map_filter)

text \<open>
  The chain of \<^verbatim>\<open>main\<close> prints the name of the first box of the table that strictly
  contains the point, and nothing for a point in no box; the variable \<^verbatim>\<open>location\<close> is
  \<open>''unknown''\<close> after it, whatever the point.
\<close>

theorem printed_region_is_first_match:
  "snd (geofence la lo) =
     (case find (contains la lo) rules of None \<Rightarrow> [] | Some r \<Rightarrow> [fst r]) \<and>
   fst (geofence la lo) = ''unknown''"
  using geofence_prints_first_match [of la lo] geofence_location [of la lo] by simp

text \<open>
  The bounds are the doubles of the literals, and the comparisons are strict: the double
  of the literal \<^verbatim>\<open>1.28967\<close>, which is greater than the decimal, is not inside the box
  of Singapore.
\<close>

theorem geofence_bound_excluded:
  "geofence (Finite (literal 128967 5)) (Finite 103.8125) = (''unknown'', []) \<and>
   128967 / 100000 < literal 128967 5"
  by (simp add: geofence_def literal_values)

text \<open>
  \<^verbatim>\<open>main\<close> raises \<^verbatim>\<open>IndexError\<close> on a file whose list of records is empty, as the
  list of a file whose stream failed is.
\<close>

theorem main_fails_without_records: "main_file [] = Inl IndexError"
  by (simp add: main_file_def)

end
